theory Spec2Isabelle
  imports Main
begin

section \<open>Values that cross the binding layer\<close>

text \<open>
  \<^verbatim>\<open>libmambapy/bindings/legacy.cpp\<close> holds the pybind11 bindings that expose the
  conflict-diagnosis types of libmamba (\<^verbatim>\<open>ProblemsGraph::conflicts_t\<close>, the list nodes of
  \<^verbatim>\<open>CompressedProblemsGraph\<close>) to Python.  The types themselves come from
  \<^verbatim>\<open>mamba/core/satisfiability_error.hpp\<close> (included at line 30).  A binding is a row
  \<^verbatim>\<open>.def(name, target, py::arg(..) = default, ...)\<close>; the theory keeps the rows as
  data, in the order of the file, and gives a call its meaning by looking the row up,
  binding the arguments and running the target.
\<close>

type_synonym node_id = nat

record PackageInfo =
  pkg_name :: string
  pkg_version :: string
  pkg_build_string :: string
  pkg_channel :: string

record MatchSpec =
  ms_name :: string
  ms_version :: string
  ms_build_string :: string
  ms_channel :: string

text \<open>
  \<^verbatim>\<open>PackageNode\<close> derives from \<^verbatim>\<open>specs::PackageInfo\<close>, \<^verbatim>\<open>UnresolvedDependencyNode\<close> and
  \<^verbatim>\<open>ConstraintNode\<close> from \<^verbatim>\<open>specs::MatchSpec\<close> (lines 537-542).  An element of a named
  list is one or the other.
\<close>

datatype elem = Pkg PackageInfo | Spec MatchSpec

fun elem_name :: "elem \<Rightarrow> string" where
  "elem_name (Pkg p) = pkg_name p"
| "elem_name (Spec s) = ms_name s"

fun elem_version :: "elem \<Rightarrow> string" where
  "elem_version (Pkg p) = pkg_version p"
| "elem_version (Spec s) = ms_version s"

fun elem_build_string :: "elem \<Rightarrow> string" where
  "elem_build_string (Pkg p) = pkg_build_string p"
| "elem_build_string (Spec s) = ms_build_string s"

datatype pyval =
    PyNone
  | PyBool bool
  | PyInt int
  | PyStr string
  | PyTuple "pyval list"
  | PyPackageInfo PackageInfo
  | PyMatchSpec MatchSpec

datatype py_error = TypeError | AttributeError

section \<open>Truncated display\<close>

text \<open>
  Modelled from the spec: the member functions \<^verbatim>\<open>versions_trunc\<close>,
  \<^verbatim>\<open>build_strings_trunc\<close> and \<^verbatim>\<open>versions_and_build_strings_trunc\<close> of the list-node
  types are bound at lines 84-107 and defined in libmamba, not in the binding file.  The spec
  (section 4.2): ``optionally deduplicate the absorbed collection's projected values
  (version strings, build strings, or "version build" pairs), keep at most threshold
  items in original order, and if any were dropped append etc as a final element before
  joining with sep''.
\<close>

definition dedup :: "'a list \<Rightarrow> 'a list" where
  "dedup xs = rev (remdups (rev xs))"

fun join :: "string \<Rightarrow> string list \<Rightarrow> string" where
  "join sep [] = []"
| "join sep [x] = x"
| "join sep (x # y # ys) = x @ sep @ join sep (y # ys)"

definition trunc_items :: "string list \<Rightarrow> string \<Rightarrow> int \<Rightarrow> bool \<Rightarrow> string list" where
  "trunc_items vs etc threshold remove_duplicates =
     (let ys = (if remove_duplicates then dedup vs else vs);
          kept = take (nat threshold) ys
      in if length kept < length ys then kept @ [etc] else ys)"

definition join_trunc :: "string list \<Rightarrow> string \<Rightarrow> string \<Rightarrow> int \<Rightarrow> bool \<Rightarrow> string" where
  "join_trunc vs sep etc threshold remove_duplicates =
     join sep (trunc_items vs etc threshold remove_duplicates)"

definition versions_trunc :: "elem list \<Rightarrow> string \<Rightarrow> string \<Rightarrow> int \<Rightarrow> bool \<Rightarrow> string" where
  "versions_trunc xs sep etc threshold remove_duplicates =
     join_trunc (map elem_version xs) sep etc threshold remove_duplicates"

definition build_strings_trunc :: "elem list \<Rightarrow> string \<Rightarrow> string \<Rightarrow> int \<Rightarrow> bool \<Rightarrow> string" where
  "build_strings_trunc xs sep etc threshold remove_duplicates =
     join_trunc (map elem_build_string xs) sep etc threshold remove_duplicates"

definition versions_and_build_strings_trunc ::
  "elem list \<Rightarrow> string \<Rightarrow> string \<Rightarrow> int \<Rightarrow> bool \<Rightarrow> string" where
  "versions_and_build_strings_trunc xs sep etc threshold remove_duplicates =
     join_trunc (map (\<lambda>x. elem_version x @ '' '' @ elem_build_string x) xs)
       sep etc threshold remove_duplicates"

section \<open>The conflict map\<close>

text \<open>
  Modelled from the spec: \<^verbatim>\<open>ProblemsGraph::conflicts_t\<close> is bound at lines 544-559 and
  defined in libmamba, not in the binding file.  The spec (section 3): ``a symmetric relation over
  Package node identifiers: add(a, b) records mutual incompatibility; has_conflict(a, b)
  and in_conflict(a) query it; conflicts(a) returns the set of nodes in conflict with a''.
  The relation is kept as the finite list of the pairs recorded so far, each once.
  \<^verbatim>\<open>size\<close> and \<open>empty\<close> are the container's own (lines 546-547): the number of nodes
  that have a conflict, and whether there is none.  The spec does not say what
  \<open>add(a, a)\<close> records; the model records that pair like any other.
\<close>

type_synonym conflict_map = "(node_id \<times> node_id) list"

definition has_conflict :: "conflict_map \<Rightarrow> node_id \<Rightarrow> node_id \<Rightarrow> bool" where
  "has_conflict m a b = ((a, b) \<in> set m)"

definition in_conflict :: "conflict_map \<Rightarrow> node_id \<Rightarrow> bool" where
  "in_conflict m a = (a \<in> fst ` set m)"

definition conflicts :: "conflict_map \<Rightarrow> node_id \<Rightarrow> node_id list" where
  "conflicts m a = map snd (filter (\<lambda>p. fst p = a) m)"

definition record_pair :: "node_id \<times> node_id \<Rightarrow> conflict_map \<Rightarrow> conflict_map" where
  "record_pair p m = (if p \<in> set m then m else m @ [p])"

definition add :: "node_id \<Rightarrow> node_id \<Rightarrow> conflict_map \<Rightarrow> conflict_map" where
  "add a b m = record_pair (b, a) (record_pair (a, b) m)"

definition cm_keys :: "conflict_map \<Rightarrow> node_id list" where
  "cm_keys m = dedup (map fst m)"

definition cm_size :: "conflict_map \<Rightarrow> nat" where
  "cm_size m = length (cm_keys m)"

definition cm_empty :: "conflict_map \<Rightarrow> bool" where
  "cm_empty m = (m = [])"

section \<open>The compressed graph and the Python objects\<close>

text \<open>
  Modelled from the spec: the declaration of \<^verbatim>\<open>CompressedProblemsGraph\<close> is in libmamba,
  not in the binding file.  The spec (section 3): list-bearing nodes that wrap ``an ordered,
  duplicate-free collection of the original entities they absorbed'', edges that are
  dependency lists between two compressed endpoints, and a conflict map over groups.
  A node identifier is the index of the node.  The accessors bound at lines 606-615 read
  the root node, the conflict map, and the node and edge collections.
\<close>

datatype named_list_class =
  PackageListNode | UnresolvedDependencyListNode | ConstraintListNode | DependencyList

datatype cp_node = RootNode | ListNode named_list_class "elem list"

record CompressedProblemsGraph =
  cp_root_node :: node_id
  cp_nodes :: "cp_node list"
  cp_edges :: "((node_id \<times> node_id) \<times> elem list) list"
  cp_conflicts :: conflict_map

datatype pyobj =
    RootNodeObj
  | NamedListObj named_list_class "elem list"
  | ConflictMapObj conflict_map
  | CpPbGraphObj CompressedProblemsGraph

fun node_obj :: "cp_node \<Rightarrow> pyobj" where
  "node_obj RootNode = RootNodeObj"
| "node_obj (ListNode c xs) = NamedListObj c xs"

text \<open>
  What a call hands back to Python.  pybind11 converts a returned C++ value into a new
  Python object: \<open>Obj\<close> and \<open>GraphPair\<close> carry the objects so created.
\<close>

datatype result =
    Val pyval
  | Items "pyval list"
  | Ids "node_id list"
  | ConflictItems "(node_id \<times> node_id list) list"
  | Obj pyobj
  | GraphPair "pyobj list" "((node_id \<times> node_id) \<times> pyobj) list"

section \<open>The binding tables\<close>

datatype impl =
    NL_size | NL_not_empty | NL_iter | NL_clear | NL_insert | NL_name
  | NL_versions_trunc | NL_build_strings_trunc | NL_versions_and_build_strings_trunc
  | CM_size | CM_not_empty | CM_iter | CM_has_conflict | CM_conflicts | CM_in_conflict
  | CM_clear | CM_add
  | CP_root_node | CP_conflicts | CP_graph | CP_problem_tree_msg

record arg_spec =
  arg_name :: string
  arg_default :: "pyval option"

record method_def =
  md_name :: string
  md_impl :: impl
  md_args :: "arg_spec list"

text \<open>An argument without \<^verbatim>\<open>py::arg\<close> has no name and no default: it is positional.\<close>

definition positional :: arg_spec where
  "positional = \<lparr>arg_name = [], arg_default = None\<rparr>"

text \<open>\<^verbatim>\<open>bind_NamedList\<close>, lines 68-109, row by row.\<close>

definition bind_NamedList :: "method_def list" where
  "bind_NamedList =
   [\<lparr>md_name = ''__len__'', md_impl = NL_size, md_args = []\<rparr>,
    \<lparr>md_name = ''__bool__'', md_impl = NL_not_empty, md_args = []\<rparr>,
    \<lparr>md_name = ''__iter__'', md_impl = NL_iter, md_args = []\<rparr>,
    \<lparr>md_name = ''clear'', md_impl = NL_clear, md_args = []\<rparr>,
    \<lparr>md_name = ''add'', md_impl = NL_insert, md_args = [positional]\<rparr>,
    \<lparr>md_name = ''name'', md_impl = NL_name, md_args = []\<rparr>,
    \<lparr>md_name = ''versions_trunc'', md_impl = NL_versions_trunc, md_args =
       [\<lparr>arg_name = ''sep'', arg_default = Some (PyStr ''|'')\<rparr>,
        \<lparr>arg_name = ''etc'', arg_default = Some (PyStr ''...'')\<rparr>,
        \<lparr>arg_name = ''threshold'', arg_default = Some (PyInt 5)\<rparr>,
        \<lparr>arg_name = ''remove_duplicates'', arg_default = Some (PyBool True)\<rparr>]\<rparr>,
    \<lparr>md_name = ''build_strings_trunc'', md_impl = NL_build_strings_trunc, md_args =
       [\<lparr>arg_name = ''sep'', arg_default = Some (PyStr ''|'')\<rparr>,
        \<lparr>arg_name = ''etc'', arg_default = Some (PyStr ''...'')\<rparr>,
        \<lparr>arg_name = ''threshold'', arg_default = Some (PyInt 5)\<rparr>,
        \<lparr>arg_name = ''remove_duplicates'', arg_default = Some (PyBool True)\<rparr>]\<rparr>,
    \<lparr>md_name = ''versions_and_build_strings_trunc'',
     md_impl = NL_versions_and_build_strings_trunc, md_args =
       [\<lparr>arg_name = ''sep'', arg_default = Some (PyStr ''|'')\<rparr>,
        \<lparr>arg_name = ''etc'', arg_default = Some (PyStr ''...'')\<rparr>,
        \<lparr>arg_name = ''threshold'', arg_default = Some (PyInt 5)\<rparr>,
        \<lparr>arg_name = ''remove_duplicates'', arg_default = Some (PyBool True)\<rparr>]\<rparr>]"

text \<open>
  The \<^verbatim>\<open>ConflictMap\<close> class, lines 544-559.  A row that binds a member function takes
  its parameters from that function; their number is the one the spec gives
  (\<open>has_conflict(a, b)\<close>, \<open>conflicts(a)\<close>, \<open>in_conflict(a)\<close>, \<open>add(a, b)\<close>).
\<close>

definition ConflictMap_methods :: "method_def list" where
  "ConflictMap_methods =
   [\<lparr>md_name = ''__len__'', md_impl = CM_size, md_args = []\<rparr>,
    \<lparr>md_name = ''__bool__'', md_impl = CM_not_empty, md_args = []\<rparr>,
    \<lparr>md_name = ''__iter__'', md_impl = CM_iter, md_args = []\<rparr>,
    \<lparr>md_name = ''has_conflict'', md_impl = CM_has_conflict, md_args = [positional, positional]\<rparr>,
    \<lparr>md_name = ''__contains__'', md_impl = CM_has_conflict, md_args = [positional, positional]\<rparr>,
    \<lparr>md_name = ''conflicts'', md_impl = CM_conflicts, md_args = [positional]\<rparr>,
    \<lparr>md_name = ''in_conflict'', md_impl = CM_in_conflict, md_args = [positional]\<rparr>,
    \<lparr>md_name = ''clear'', md_impl = CM_clear, md_args = []\<rparr>,
    \<lparr>md_name = ''add'', md_impl = CM_add, md_args = [positional, positional]\<rparr>]"

text \<open>The instance methods of \<^verbatim>\<open>CompressedProblemsGraph\<close>, lines 606-616.\<close>

definition CpPbGraph_methods :: "method_def list" where
  "CpPbGraph_methods =
   [\<lparr>md_name = ''root_node'', md_impl = CP_root_node, md_args = []\<rparr>,
    \<lparr>md_name = ''conflicts'', md_impl = CP_conflicts, md_args = []\<rparr>,
    \<lparr>md_name = ''graph'', md_impl = CP_graph, md_args = []\<rparr>,
    \<lparr>md_name = ''tree_message'', md_impl = CP_problem_tree_msg, md_args = []\<rparr>]"

text \<open>
  Lines 590-595 instantiate \<^verbatim>\<open>bind_NamedList\<close> once for each of the four list classes;
  \<^verbatim>\<open>RootNode\<close> (line 536) has a constructor and no method.
\<close>

fun methods_of :: "pyobj \<Rightarrow> method_def list" where
  "methods_of RootNodeObj = []"
| "methods_of (NamedListObj PackageListNode xs) = bind_NamedList"
| "methods_of (NamedListObj UnresolvedDependencyListNode xs) = bind_NamedList"
| "methods_of (NamedListObj ConstraintListNode xs) = bind_NamedList"
| "methods_of (NamedListObj DependencyList xs) = bind_NamedList"
| "methods_of (ConflictMapObj m) = ConflictMap_methods"
| "methods_of (CpPbGraphObj g) = CpPbGraph_methods"

definition lookup_method :: "method_def list \<Rightarrow> string \<Rightarrow> method_def option" where
  "lookup_method defs n = find (\<lambda>d. md_name d = n) defs"

section \<open>Calling a bound method\<close>

text \<open>
  Positional arguments fill the parameters from the left; a parameter left over takes the
  keyword argument of its name, else its default; anything else (too many arguments, a
  parameter without value, a keyword that names no remaining parameter) is pybind11's
  \<^verbatim>\<open>TypeError\<close>.
\<close>

fun bind_args ::
  "arg_spec list \<Rightarrow> pyval list \<Rightarrow> (string \<times> pyval) list \<Rightarrow> py_error + pyval list" where
  "bind_args [] [] kw = (if kw = [] then Inr [] else Inl TypeError)"
| "bind_args [] (p # ps) kw = Inl TypeError"
| "bind_args (a # as) (p # ps) kw =
     (case bind_args as ps kw of Inl e \<Rightarrow> Inl e | Inr vs \<Rightarrow> Inr (p # vs))"
| "bind_args (a # as) [] kw =
     (case (if arg_name a = [] then None else map_of kw (arg_name a)) of
        Some v \<Rightarrow>
          (case bind_args as [] (filter (\<lambda>(k, _). k \<noteq> arg_name a) kw) of
             Inl e \<Rightarrow> Inl e | Inr vs \<Rightarrow> Inr (v # vs))
      | None \<Rightarrow>
          (case arg_default a of
             None \<Rightarrow> Inl TypeError
           | Some d \<Rightarrow>
               (case bind_args as [] kw of Inl e \<Rightarrow> Inl e | Inr vs \<Rightarrow> Inr (d # vs))))"

text \<open>
  A node identifier is a \<^verbatim>\<open>std::size_t\<close>, taken as 64 bits wide: a Python integer
  converts when it lies in its range, a Python \<^verbatim>\<open>bool\<close> is an integer (0 or 1) and
  converts too, and nothing else does (a tuple in particular).
\<close>

definition size_t_max :: int where
  "size_t_max = 2 ^ 64 - 1"

fun as_id :: "pyval \<Rightarrow> node_id option" where
  "as_id (PyInt i) = (if 0 \<le> i \<and> i \<le> size_t_max then Some (nat i) else None)"
| "as_id (PyBool b) = Some (if b then 1 else 0)"
| "as_id _ = None"

text \<open>The value type of a list class (\<^verbatim>\<open>type::value_type\<close>, line 82).\<close>

fun as_elem :: "named_list_class \<Rightarrow> pyval \<Rightarrow> elem option" where
  "as_elem PackageListNode (PyPackageInfo p) = Some (Pkg p)"
| "as_elem UnresolvedDependencyListNode (PyMatchSpec s) = Some (Spec s)"
| "as_elem ConstraintListNode (PyMatchSpec s) = Some (Spec s)"
| "as_elem DependencyList (PyMatchSpec s) = Some (Spec s)"
| "as_elem _ _ = None"

fun elem_val :: "elem \<Rightarrow> pyval" where
  "elem_val (Pkg p) = PyPackageInfo p"
| "elem_val (Spec s) = PyMatchSpec s"

text \<open>
  Modelled from the spec: \<open>insert\<close> and \<open>name\<close> of the list classes are defined in
  libmamba, not in the binding file.  The collection is ``ordered, duplicate-free'' and \<open>name()\<close> is ``the common
  name shared by all absorbed entities''.
\<close>

definition nl_insert :: "elem \<Rightarrow> elem list \<Rightarrow> elem list" where
  "nl_insert v xs = (if v \<in> set xs then xs else xs @ [v])"

definition nl_name :: "elem list \<Rightarrow> string" where
  "nl_name xs = (case xs of [] \<Rightarrow> [] | x # _ \<Rightarrow> elem_name x)"

fun run_trunc ::
  "(elem list \<Rightarrow> string \<Rightarrow> string \<Rightarrow> int \<Rightarrow> bool \<Rightarrow> string) \<Rightarrow> elem list \<Rightarrow> pyval list
     \<Rightarrow> py_error + string" where
  "run_trunc f xs [PyStr sep, PyStr etc, PyInt threshold, PyBool rd] =
     Inr (f xs sep etc threshold rd)"
| "run_trunc f xs _ = Inl TypeError"

text \<open>
  The targets of the list classes.  \<^verbatim>\<open>clear\<close> and \<^verbatim>\<open>add\<close> take \<^verbatim>\<open>type& self\<close>
  (lines 81-82) and change it; every other target takes the list as \<^verbatim>\<open>const\<close>.
\<close>

fun run_named_list ::
  "impl \<Rightarrow> named_list_class \<Rightarrow> elem list \<Rightarrow> pyval list \<Rightarrow> py_error + (elem list \<times> result)" where
  "run_named_list NL_size c xs [] = Inr (xs, Val (PyInt (int (length xs))))"
| "run_named_list NL_not_empty c xs [] = Inr (xs, Val (PyBool (xs \<noteq> [])))"
| "run_named_list NL_iter c xs [] = Inr (xs, Items (map elem_val xs))"
| "run_named_list NL_clear c xs [] = Inr ([], Val PyNone)"
| "run_named_list NL_insert c xs [v] =
     (case as_elem c v of
        None \<Rightarrow> Inl TypeError
      | Some e \<Rightarrow> Inr (nl_insert e xs, Val PyNone))"
| "run_named_list NL_name c xs [] = Inr (xs, Val (PyStr (nl_name xs)))"
| "run_named_list NL_versions_trunc c xs vs =
     (case run_trunc versions_trunc xs vs of
        Inl e \<Rightarrow> Inl e | Inr s \<Rightarrow> Inr (xs, Val (PyStr s)))"
| "run_named_list NL_build_strings_trunc c xs vs =
     (case run_trunc build_strings_trunc xs vs of
        Inl e \<Rightarrow> Inl e | Inr s \<Rightarrow> Inr (xs, Val (PyStr s)))"
| "run_named_list NL_versions_and_build_strings_trunc c xs vs =
     (case run_trunc versions_and_build_strings_trunc xs vs of
        Inl e \<Rightarrow> Inl e | Inr s \<Rightarrow> Inr (xs, Val (PyStr s)))"
| "run_named_list _ c xs _ = Inl TypeError"

text \<open>
  The targets of \<^verbatim>\<open>ConflictMap\<close>.  \<^verbatim>\<open>has_conflict\<close> and \<^verbatim>\<open>__contains__\<close> are bound to the
  one member function \<^verbatim>\<open>&PbGraph::conflicts_t::has_conflict\<close> (lines 554-555).
\<close>

fun run_conflict_map ::
  "impl \<Rightarrow> conflict_map \<Rightarrow> pyval list \<Rightarrow> py_error + (conflict_map \<times> result)" where
  "run_conflict_map CM_size m [] = Inr (m, Val (PyInt (int (cm_size m))))"
| "run_conflict_map CM_not_empty m [] = Inr (m, Val (PyBool (\<not> cm_empty m)))"
| "run_conflict_map CM_iter m [] =
     Inr (m, ConflictItems (map (\<lambda>a. (a, conflicts m a)) (cm_keys m)))"
| "run_conflict_map CM_has_conflict m [x, y] =
     (case (as_id x, as_id y) of
        (Some a, Some b) \<Rightarrow> Inr (m, Val (PyBool (has_conflict m a b)))
      | _ \<Rightarrow> Inl TypeError)"
| "run_conflict_map CM_conflicts m [x] =
     (case as_id x of
        Some a \<Rightarrow> Inr (m, Ids (conflicts m a))
      | None \<Rightarrow> Inl TypeError)"
| "run_conflict_map CM_in_conflict m [x] =
     (case as_id x of
        Some a \<Rightarrow> Inr (m, Val (PyBool (in_conflict m a)))
      | None \<Rightarrow> Inl TypeError)"
| "run_conflict_map CM_clear m [] = Inr ([], Val PyNone)"
| "run_conflict_map CM_add m [x, y] =
     (case (as_id x, as_id y) of
        (Some a, Some b) \<Rightarrow> Inr (add a b m, Val PyNone)
      | _ \<Rightarrow> Inl TypeError)"
| "run_conflict_map _ m _ = Inl TypeError"

text \<open>
  The targets of \<^verbatim>\<open>CompressedProblemsGraph\<close>.  \<^verbatim>\<open>graph\<close> builds
  \<^verbatim>\<open>std::pair(g.nodes(), g.edges())\<close>, a pair of copies, and \<^verbatim>\<open>conflicts\<close> is bound with
  pybind11's default return value policy, which copies a value returned by reference:
  both hand new objects to Python.  \<^verbatim>\<open>problem_tree_msg\<close> is a function of libmamba and
  is a parameter here.
\<close>

fun run_cp_graph ::
  "(CompressedProblemsGraph \<Rightarrow> string) \<Rightarrow> impl \<Rightarrow> CompressedProblemsGraph \<Rightarrow> pyval list
     \<Rightarrow> py_error + (CompressedProblemsGraph \<times> result)" where
  "run_cp_graph msg CP_root_node g [] = Inr (g, Val (PyInt (int (cp_root_node g))))"
| "run_cp_graph msg CP_conflicts g [] = Inr (g, Obj (ConflictMapObj (cp_conflicts g)))"
| "run_cp_graph msg CP_graph g [] =
     Inr (g, GraphPair (map node_obj (cp_nodes g))
                       (map (\<lambda>(k, dl). (k, NamedListObj DependencyList dl)) (cp_edges g)))"
| "run_cp_graph msg CP_problem_tree_msg g [] = Inr (g, Val (PyStr (msg g)))"
| "run_cp_graph msg _ g _ = Inl TypeError"

fun run_impl ::
  "(CompressedProblemsGraph \<Rightarrow> string) \<Rightarrow> impl \<Rightarrow> pyobj \<Rightarrow> pyval list
     \<Rightarrow> py_error + (pyobj \<times> result)" where
  "run_impl msg i RootNodeObj vs = Inl TypeError"
| "run_impl msg i (NamedListObj c xs) vs =
     (case run_named_list i c xs vs of
        Inl e \<Rightarrow> Inl e | Inr (xs', r) \<Rightarrow> Inr (NamedListObj c xs', r))"
| "run_impl msg i (ConflictMapObj m) vs =
     (case run_conflict_map i m vs of
        Inl e \<Rightarrow> Inl e | Inr (m', r) \<Rightarrow> Inr (ConflictMapObj m', r))"
| "run_impl msg i (CpPbGraphObj g) vs =
     (case run_cp_graph msg i g vs of
        Inl e \<Rightarrow> Inl e | Inr (g', r) \<Rightarrow> Inr (CpPbGraphObj g', r))"

definition call_method ::
  "(CompressedProblemsGraph \<Rightarrow> string) \<Rightarrow> pyobj \<Rightarrow> string \<Rightarrow> pyval list
     \<Rightarrow> (string \<times> pyval) list \<Rightarrow> py_error + (pyobj \<times> result)" where
  "call_method msg self n pos kw =
     (case lookup_method (methods_of self) n of
        None \<Rightarrow> Inl AttributeError
      | Some d \<Rightarrow>
          (case bind_args (md_args d) pos kw of
             Inl e \<Rightarrow> Inl e
           | Inr vs \<Rightarrow> run_impl msg (md_impl d) self vs))"



section \<open>The Python heap\<close>

text \<open>
  Python holds references; a bound method may change the C++ object behind its receiver.
  The heap is the list of the objects created so far, an address is an index.  A call
  replaces the receiver by what the target left of it and appends the objects the call
  created; a call that raises changes nothing.  Besides method calls there are the
  constructors: \<^verbatim>\<open>py::init\<close> of \<^verbatim>\<open>RootNode\<close> (line 536), of the list classes (line 73) and of
  \<^verbatim>\<open>ConflictMap\<close> (line 545), and the static \<^verbatim>\<open>from_problems_graph\<close> (lines 601-605), which
  returns a new graph by value (compression itself is a function of libmamba, so the
  action carries the graph it returns).
\<close>

datatype py_class = RootNodeClass | NamedListClass named_list_class | ConflictMapClass

fun init_obj :: "py_class \<Rightarrow> pyobj" where
  "init_obj RootNodeClass = RootNodeObj"
| "init_obj (NamedListClass c) = NamedListObj c []"
| "init_obj ConflictMapClass = ConflictMapObj []"

datatype action =
    Call nat string "pyval list" "(string \<times> pyval) list"
  | Init py_class
  | From_problems_graph CompressedProblemsGraph

fun new_objects :: "result \<Rightarrow> pyobj list" where
  "new_objects (Obj ob) = [ob]"
| "new_objects (GraphPair ns es) = ns @ map snd es"
| "new_objects _ = []"

fun py_step :: "(CompressedProblemsGraph \<Rightarrow> string) \<Rightarrow> pyobj list \<Rightarrow> action \<Rightarrow> pyobj list" where
  "py_step msg h (Call r n pos kw) =
     (if r < length h then
        (case call_method msg (h ! r) n pos kw of
           Inl e \<Rightarrow> h
         | Inr (self', res) \<Rightarrow> h[r := self'] @ new_objects res)
      else h)"
| "py_step msg h (Init c) = h @ [init_obj c]"
| "py_step msg h (From_problems_graph g) = h @ [CpPbGraphObj g]"

definition py_run :: "(CompressedProblemsGraph \<Rightarrow> string) \<Rightarrow> pyobj list \<Rightarrow> action list \<Rightarrow> pyobj list" where
  "py_run msg h acts = foldl (py_step msg) h acts"

text \<open>A small compressed graph and a Python session on it, used to run the model.\<close>

definition pkgA_1_0 :: PackageInfo where
  "pkgA_1_0 = \<lparr>pkg_name = ''pkgA'', pkg_version = ''1.0'', pkg_build_string = ''h0'',
               pkg_channel = ''conda-forge''\<rparr>"

definition pkgA_1_1 :: PackageInfo where
  "pkgA_1_1 = \<lparr>pkg_name = ''pkgA'', pkg_version = ''1.1'', pkg_build_string = ''h0'',
               pkg_channel = ''conda-forge''\<rparr>"

definition spec_pkgA :: MatchSpec where
  "spec_pkgA = \<lparr>ms_name = ''pkgA'', ms_version = ''>=1.0'', ms_build_string = [],
                ms_channel = []\<rparr>"

definition example_graph :: CompressedProblemsGraph where
  "example_graph =
     \<lparr>cp_root_node = 0,
      cp_nodes = [RootNode, ListNode PackageListNode [Pkg pkgA_1_0]],
      cp_edges = [((0, 1), [Spec spec_pkgA])],
      cp_conflicts = []\<rparr>"

definition example_session :: "action list" where
  "example_session =
     [Call 0 ''graph'' [] [],
      Call 2 ''add'' [PyPackageInfo pkgA_1_1] [],
      Call 3 ''clear'' [] [],
      Call 0 ''conflicts'' [] [],
      Call 4 ''add'' [PyInt 0, PyInt 1] [],
      Call 0 ''clear'' [] [],
      Call 0 ''tree_message'' [] []]"

section \<open>Truncated display: the two worked examples\<close>

lemma join_trunc_take:
  "join_trunc vs sep etc threshold True =
     join sep (take (nat threshold) (dedup vs)
               @ (if nat threshold < length (dedup vs) then [etc] else []))"
  by (simp add: join_trunc_def trunc_items_def Let_def)

text \<open>
  C4.  On a list node whose absorbed entities have the versions 1.0, 1.1, 1.2, 1.3, 1.4,
  1.5, 1.6, the call \<^verbatim>\<open>versions_trunc("|", "...", 5, True)\<close> returns exactly
  \<^verbatim>\<open>1.0|1.1|1.2|1.3|1.4|...\<close> and leaves the node as it was: the items before joining are
  the first five versions followed by the marker.  In general, with deduplication on, the
  joined items are the first \<open>threshold\<close> deduplicated values in their order, followed by
  \<open>etc\<close> exactly when values were dropped.
\<close>

theorem versions_trunc_seven_versions:
  assumes "map elem_version xs = [''1.0'', ''1.1'', ''1.2'', ''1.3'', ''1.4'', ''1.5'', ''1.6'']"
  shows "call_method msg (NamedListObj c xs) ''versions_trunc''
           [PyStr ''|'', PyStr ''...'', PyInt 5, PyBool True] []
         = Inr (NamedListObj c xs, Val (PyStr ''1.0|1.1|1.2|1.3|1.4|...''))
       \<and> trunc_items (map elem_version xs) ''...'' 5 True
         = [''1.0'', ''1.1'', ''1.2'', ''1.3'', ''1.4'', ''...'']
       \<and> (\<forall>vs sep etc threshold.
            join_trunc vs sep etc threshold True =
              join sep (take (nat threshold) (dedup vs)
                        @ (if nat threshold < length (dedup vs) then [etc] else [])))"
proof -
  have items: "trunc_items (map elem_version xs) ''...'' 5 True
         = [''1.0'', ''1.1'', ''1.2'', ''1.3'', ''1.4'', ''...'']"
    using assms by (simp add: trunc_items_def dedup_def Let_def)
  have found: "lookup_method (methods_of (NamedListObj c xs)) ''versions_trunc''
         = Some (bind_NamedList ! 6)"
    by (cases c) (simp_all add: lookup_method_def bind_NamedList_def)
  have "call_method msg (NamedListObj c xs) ''versions_trunc''
           [PyStr ''|'', PyStr ''...'', PyInt 5, PyBool True] []
         = Inr (NamedListObj c xs, Val (PyStr (join ''|'' (trunc_items (map elem_version xs) ''...'' 5 True))))"
    unfolding call_method_def found
    by (simp add: bind_NamedList_def versions_trunc_def join_trunc_def)
  then show ?thesis
    using items join_trunc_take by simp
qed

theorem versions_trunc_seven_versions_witness:
  "call_method (\<lambda>g. []) (NamedListObj PackageListNode
      (map (\<lambda>v. Pkg \<lparr>pkg_name = ''numpy'', pkg_version = v, pkg_build_string = ''h0'',
                      pkg_channel = ''conda-forge''\<rparr>)
         [''1.0'', ''1.1'', ''1.2'', ''1.3'', ''1.4'', ''1.5'', ''1.6'']))
      ''versions_trunc'' [PyStr ''|'', PyStr ''...'', PyInt 5, PyBool True] []
   = Inr (NamedListObj PackageListNode
      (map (\<lambda>v. Pkg \<lparr>pkg_name = ''numpy'', pkg_version = v, pkg_build_string = ''h0'',
                      pkg_channel = ''conda-forge''\<rparr>)
         [''1.0'', ''1.1'', ''1.2'', ''1.3'', ''1.4'', ''1.5'', ''1.6'']),
      Val (PyStr ''1.0|1.1|1.2|1.3|1.4|...''))"
  using versions_trunc_seven_versions [of
      "map (\<lambda>v. Pkg \<lparr>pkg_name = ''numpy'', pkg_version = v, pkg_build_string = ''h0'',
                      pkg_channel = ''conda-forge''\<rparr>)
         [''1.0'', ''1.1'', ''1.2'', ''1.3'', ''1.4'', ''1.5'', ''1.6'']"
      "\<lambda>g. []" PackageListNode]
  by simp

text \<open>
  C5.  On a list node whose absorbed entities have the versions 1.0, 1.0, 1.1, the call
  \<^verbatim>\<open>versions_trunc()\<close> with every argument left to its default deduplicates the versions
  to 1.0, 1.1 and returns exactly \<^verbatim>\<open>1.0|1.1\<close>: two items are not more than the threshold 5,
  so nothing is dropped and no marker is appended.
\<close>

theorem versions_trunc_duplicates:
  assumes "map elem_version xs = [''1.0'', ''1.0'', ''1.1'']"
  shows "dedup (map elem_version xs) = [''1.0'', ''1.1'']
       \<and> trunc_items (map elem_version xs) ''...'' 5 True = [''1.0'', ''1.1'']
       \<and> call_method msg (NamedListObj c xs) ''versions_trunc'' [] []
         = Inr (NamedListObj c xs, Val (PyStr ''1.0|1.1''))"
proof -
  have d: "dedup (map elem_version xs) = [''1.0'', ''1.1'']"
    using assms by (simp add: dedup_def)
  have items: "trunc_items (map elem_version xs) ''...'' 5 True = [''1.0'', ''1.1'']"
    using d by (simp add: trunc_items_def Let_def)
  have found: "lookup_method (methods_of (NamedListObj c xs)) ''versions_trunc''
         = Some (bind_NamedList ! 6)"
    by (cases c) (simp_all add: lookup_method_def bind_NamedList_def)
  have "call_method msg (NamedListObj c xs) ''versions_trunc'' [] []
         = Inr (NamedListObj c xs, Val (PyStr (join ''|'' (trunc_items (map elem_version xs) ''...'' 5 True))))"
    unfolding call_method_def found
    by (simp add: bind_NamedList_def versions_trunc_def join_trunc_def)
  then show ?thesis
    using d items by simp
qed

theorem versions_trunc_duplicates_witness:
  "call_method (\<lambda>g. []) (NamedListObj PackageListNode
      [Pkg \<lparr>pkg_name = ''numpy'', pkg_version = ''1.0'', pkg_build_string = ''h0'',
            pkg_channel = ''conda-forge''\<rparr>,
       Pkg \<lparr>pkg_name = ''numpy'', pkg_version = ''1.0'', pkg_build_string = ''h1'',
            pkg_channel = ''conda-forge''\<rparr>,
       Pkg \<lparr>pkg_name = ''numpy'', pkg_version = ''1.1'', pkg_build_string = ''h0'',
            pkg_channel = ''conda-forge''\<rparr>])
      ''versions_trunc'' [] []
   = Inr (NamedListObj PackageListNode
      [Pkg \<lparr>pkg_name = ''numpy'', pkg_version = ''1.0'', pkg_build_string = ''h0'',
            pkg_channel = ''conda-forge''\<rparr>,
       Pkg \<lparr>pkg_name = ''numpy'', pkg_version = ''1.0'', pkg_build_string = ''h1'',
            pkg_channel = ''conda-forge''\<rparr>,
       Pkg \<lparr>pkg_name = ''numpy'', pkg_version = ''1.1'', pkg_build_string = ''h0'',
            pkg_channel = ''conda-forge''\<rparr>],
      Val (PyStr ''1.0|1.1''))"
  using versions_trunc_duplicates [of
      "[Pkg \<lparr>pkg_name = ''numpy'', pkg_version = ''1.0'', pkg_build_string = ''h0'',
            pkg_channel = ''conda-forge''\<rparr>,
       Pkg \<lparr>pkg_name = ''numpy'', pkg_version = ''1.0'', pkg_build_string = ''h1'',
            pkg_channel = ''conda-forge''\<rparr>,
       Pkg \<lparr>pkg_name = ''numpy'', pkg_version = ''1.1'', pkg_build_string = ''h0'',
            pkg_channel = ''conda-forge''\<rparr>]"
      "\<lambda>g. []" PackageListNode]
  by simp

section \<open>The binding rows of the truncated displays\<close>

text \<open>
  C9.  On each of the four list classes bound through \<^verbatim>\<open>bind_NamedList\<close>
  (PackageListNode, UnresolvedDependencyListNode, ConstraintListNode, DependencyList), each
  of \<^verbatim>\<open>versions_trunc\<close>, \<^verbatim>\<open>build_strings_trunc\<close> and
  \<^verbatim>\<open>versions_and_build_strings_trunc\<close> is bound with the parameters sep = "|",
  etc = "...", threshold = 5, remove_duplicates = True, in this order; so a call without
  arguments is the call with exactly these four values.
\<close>

theorem trunc_default_arguments:
  "\<forall>c \<in> set [PackageListNode, UnresolvedDependencyListNode, ConstraintListNode, DependencyList].
   \<forall>n \<in> set [''versions_trunc'', ''build_strings_trunc'', ''versions_and_build_strings_trunc''].
     map_option md_args (lookup_method (methods_of (NamedListObj c xs)) n) =
       Some [\<lparr>arg_name = ''sep'', arg_default = Some (PyStr ''|'')\<rparr>,
             \<lparr>arg_name = ''etc'', arg_default = Some (PyStr ''...'')\<rparr>,
             \<lparr>arg_name = ''threshold'', arg_default = Some (PyInt 5)\<rparr>,
             \<lparr>arg_name = ''remove_duplicates'', arg_default = Some (PyBool True)\<rparr>]
     \<and> call_method msg (NamedListObj c xs) n [] [] =
         call_method msg (NamedListObj c xs) n
           [PyStr ''|'', PyStr ''...'', PyInt 5, PyBool True] []"
  by (simp add: lookup_method_def bind_NamedList_def call_method_def)

theorem trunc_default_arguments_witness:
  "map_option md_args
     (lookup_method (methods_of (NamedListObj DependencyList [])) ''build_strings_trunc'') =
     Some [\<lparr>arg_name = ''sep'', arg_default = Some (PyStr ''|'')\<rparr>,
           \<lparr>arg_name = ''etc'', arg_default = Some (PyStr ''...'')\<rparr>,
           \<lparr>arg_name = ''threshold'', arg_default = Some (PyInt 5)\<rparr>,
           \<lparr>arg_name = ''remove_duplicates'', arg_default = Some (PyBool True)\<rparr>]
   \<and> call_method (\<lambda>g. []) (NamedListObj DependencyList [])
         ''build_strings_trunc'' [] [] =
       call_method (\<lambda>g. []) (NamedListObj DependencyList [])
         ''build_strings_trunc'' [PyStr ''|'', PyStr ''...'', PyInt 5, PyBool True] []"
  using trunc_default_arguments [of "[]" "\<lambda>g. []"]
  by simp

section \<open>Membership in the conflict map\<close>




section \<open>The compressed graph is not changed through the bindings\<close>

lemma run_cp_graph_self: "run_cp_graph msg i g vs = Inr (g', r) \<Longrightarrow> g' = g"
  by (induction msg i g vs rule: run_cp_graph.induct) auto

lemma call_method_graph_self:
  "call_method msg (CpPbGraphObj g) n pos kw = Inr (self', r) \<Longrightarrow> self' = CpPbGraphObj g"
  by (auto simp: call_method_def split: option.splits sum.splits dest: run_cp_graph_self)

lemma py_step_frame:
  assumes "a < length h" and "h ! a = CpPbGraphObj g"
  shows "a < length (py_step msg h act) \<and> py_step msg h act ! a = CpPbGraphObj g"
proof (cases act)
  case (Call r n pos kw)
  show ?thesis
  proof (cases "r < length h")
    case False
    with Call assms show ?thesis by simp
  next
    case True
    show ?thesis
    proof (cases "call_method msg (h ! r) n pos kw")
      case (Inl e)
      with Call True assms show ?thesis by simp
    next
      case (Inr p)
      obtain self' res where p: "p = (self', res)" by (cases p)
      have "(h[r := self']) ! a = CpPbGraphObj g"
      proof (cases "r = a")
        case True
        with Inr p assms call_method_graph_self show ?thesis by auto
      next
        case False
        with assms show ?thesis by simp
      qed
      with Call True Inr p assms show ?thesis
        by (simp add: nth_append)
    qed
  qed
next
  case (Init c)
  with assms show ?thesis by (simp add: nth_append)
next
  case (From_problems_graph g')
  with assms show ?thesis by (simp add: nth_append)
qed

text \<open>
  C8.  Once a CompressedProblemsGraph object exists on the Python heap, no sequence of
  operations of the bindings changes it: not the methods of the graph (root_node,
  conflicts, graph, tree_message), not the methods of the list nodes, dependency lists and
  conflict map it hands out (clear and add included: they change the object they are
  called on, which is a copy), not the constructors.  The graph stays at its address with
  the value it was built with.
\<close>

theorem compressed_graph_immutable:
  assumes "a < length h" and "h ! a = CpPbGraphObj g"
  shows "a < length (py_run msg h acts) \<and> py_run msg h acts ! a = CpPbGraphObj g"
  using assms unfolding py_run_def
proof (induction acts arbitrary: h)
  case Nil
  then show ?case by simp
next
  case (Cons act acts)
  from py_step_frame [OF Cons.prems]
  have "a < length (py_step msg h act)" and "py_step msg h act ! a = CpPbGraphObj g"
    by simp_all
  from Cons.IH [OF this] show ?case by simp
qed

text \<open>
  The session of the witness reads the nodes and edges, adds a package to the node it
  got and clears the dependency list it got, reads the conflict map and adds a conflict
  to it, and tries \<^verbatim>\<open>clear\<close> on the graph itself, which has no such method.
\<close>

theorem compressed_graph_immutable_witness:
  "py_run (\<lambda>g. []) [CpPbGraphObj example_graph] example_session =
     [CpPbGraphObj example_graph,
      RootNodeObj,
      NamedListObj PackageListNode [Pkg pkgA_1_0, Pkg pkgA_1_1],
      NamedListObj DependencyList [],
      ConflictMapObj [(0, 1), (1, 0)]]
   \<and> py_run (\<lambda>g. []) [CpPbGraphObj example_graph] example_session ! 0 =
       CpPbGraphObj example_graph"
proof -
  have run: "py_run (\<lambda>g. []) [CpPbGraphObj example_graph] example_session =
     [CpPbGraphObj example_graph,
      RootNodeObj,
      NamedListObj PackageListNode [Pkg pkgA_1_0, Pkg pkgA_1_1],
      NamedListObj DependencyList [],
      ConflictMapObj [(0, 1), (1, 0)]]"
    by (simp add: py_run_def example_session_def call_method_def lookup_method_def
          CpPbGraph_methods_def bind_NamedList_def ConflictMap_methods_def positional_def
          example_graph_def nl_insert_def add_def record_pair_def pkgA_1_0_def pkgA_1_1_def
          size_t_max_def)
  have "0 < length [CpPbGraphObj example_graph]"
    and "[CpPbGraphObj example_graph] ! 0 = CpPbGraphObj example_graph"
    by simp_all
  from compressed_graph_immutable [OF this, of "\<lambda>g. []" example_session] run
  show ?thesis by simp
qed

end
